theory Spec2Isabelle
  imports Main
begin

section \<open>The JSON Web Key Set endpoint (plugin/path\_jwks.go)\<close>

subsection \<open>Data\<close>

text \<open>
  Public keys as the Go program holds them in the \<open>Key\<close> field of a
  \<open>jose.JSONWebKey\<close> (an \<open>interface{}\<close>): an \<open>ed25519.PublicKey\<close> (a byte string), a
  pointer to an \<open>rsa.PublicKey\<close> (modulus and exponent), or whatever else
  \<open>x509.ParsePKIXPublicKey\<close> hands back (an elliptic-curve point with the name of
  its curve). Byte strings are \<open>string\<close>s.
\<close>

datatype public_key =
    Ed25519PublicKey string
  | RSAPublicKey int int
  | ECDSAPublicKey string int int

text \<open>\<open>rsa.PrivateKey\<close>: the embedded public key and the private exponent.\<close>

record rsa_private_key =
  PublicKey :: public_key
  PrivateExponent :: int

text \<open>
  \<open>keysutil.KeyEntry\<close>, the two fields \<open>getPublicKeys\<close> reads. \<open>RSAKey\<close> is a
  pointer: \<open>None\<close> is \<open>nil\<close>.
\<close>

record KeyEntry =
  FormattedPublicKey :: string
  RSAKey :: "rsa_private_key option"

text \<open>\<open>keysutil.KeyType\<close>, an enumeration; the code only asks whether it is ED25519.\<close>

datatype KeyType =
    KeyType_AES256_GCM96
  | KeyType_ECDSA_P256
  | KeyType_ED25519
  | KeyType_RSA2048
  | KeyType_RSA4096
  | KeyType_ChaCha20_Poly1305
  | KeyType_ECDSA_P384
  | KeyType_ECDSA_P521
  | KeyType_AES128_GCM96
  | KeyType_RSA3072

text \<open>
  \<open>keysutil.Policy\<close>: the snapshot of the key registry. \<open>Keys\<close> is a Go map from
  the decimal rendering of a version to its entry. Versions are Go \<open>int\<close>s; they
  are small counters handed out by the registry, far from the 64-bit limits,
  and are modelled as unbounded integers.
\<close>

record Policy =
  Name :: string
  Type :: KeyType
  LatestVersion :: int
  MinDecryptionVersion :: int
  Keys :: "string \<rightharpoonup> KeyEntry"

text \<open>
  \<open>jose.JSONWebKey\<close>, the fields the code writes. \<open>Key = None\<close> is the \<open>nil\<close>
  interface. The zero value is what \<open>make\<close> fills a fresh slice with.
\<close>

record JSONWebKey =
  Key :: "public_key option"
  KeyID :: string
  Algorithm :: string
  Use :: string

definition zeroJSONWebKey :: JSONWebKey where
  "zeroJSONWebKey = \<lparr>Key = None, KeyID = [], Algorithm = [], Use = []\<rparr>"

text \<open>
  The part of the mount's \<open>Config\<close> record that both endpoints share. Durations
  are Go \<open>time.Duration\<close>s, a count of nanoseconds. The struct itself is declared
  outside the two source files; its fields are the ones
  \<open>pathConfigWrite\<close> and \<open>configResponse\<close> use.
\<close>

record Config =
  SignatureAlgorithm :: string
  RSAKeyBits :: int
  KeyRotationPeriod :: int
  TokenTTL :: int
  SetIAT :: bool
  SetJTI :: bool
  SetNBF :: bool
  AudiencePattern :: string
  SubjectPattern :: string
  MaxAudiences :: int
  AllowedClaims :: "string list"

text \<open>
  What \<open>getPublicKeys\<close> calls and the two files do not define: the backend's
  identity \<open>b.id\<close>, the repository's \<open>createKeyId\<close>, and the library decoders
  (\<open>None\<close> is a decoder's error, or the \<open>nil\<close> block of \<open>pem.Decode\<close>). They are
  parameters of the model.
\<close>

record jwks_backend =
  backend_id :: string
  createKeyId :: "string \<Rightarrow> string \<Rightarrow> int \<Rightarrow> string"
  base64_DecodeString :: "string \<Rightarrow> string option"
  pem_Decode :: "string \<Rightarrow> string option"
  x509_ParsePKIXPublicKey :: "string \<Rightarrow> public_key option"
  json_Marshal_keys :: "JSONWebKey list \<Rightarrow> string + string"

text \<open>
  Go errors and panics. \<open>ErrInvalidRequest\<close> is \<open>logical.ErrInvalidRequest\<close>; the
  others carry the message of the library or storage call that failed.
\<close>

datatype go_error =
    ErrInvalidRequest
  | StorageError string
  | MarshalError string
  | ParseDurationError string
  | RegexpError string

datatype go_panic = MakeSliceLenOutOfRange | IndexOutOfRange | InterfaceConversion

datatype 'a go_result = Returns 'a | Fails go_error | Panics go_panic

text \<open>
  A value of Go's \<open>interface{}\<close> as the field data and the response data hold
  it, tagged with its dynamic type.
\<close>

datatype field_value =
    VString string
  | VInt int
  | VBool bool
  | VStringSlice "string list"
  | VBytes string

text \<open>
  \<open>logical.Response\<close>: its \<open>Data\<close> map. What a request handler returns is a
  pair \<open>(*logical.Response, error)\<close>, either of which may be \<open>nil\<close>, unless it
  panics.
\<close>

record Response =
  Data :: "string \<rightharpoonup> field_value"

datatype handler_result =
    Return "Response option" "go_error option"
  | Panic go_panic

subsection \<open>strconv.Itoa\<close>

fun digits :: "nat \<Rightarrow> string" where
  "digits n =
     (if n < 10 then [''0123456789'' ! n]
      else digits (n div 10) @ [''0123456789'' ! (n mod 10)])"

declare digits.simps [simp del]

definition Itoa :: "int \<Rightarrow> string" where
  "Itoa i = (if i < 0 then CHR ''-'' # digits (nat (- i)) else digits (nat i))"

subsection \<open>getPublicKeys\<close>

text \<open>
  Lines 99 to 121: what one key version gives. \<open>Continue\<close> is the \<open>continue\<close> of
  a failed decode (the logger call before it changes nothing that is returned);
  \<open>Assign k\<close> is an assignment of \<open>k\<close> to the entry's \<open>Key\<close>; \<open>NoAssign\<close> is the
  \<open>if\<close> chain falling through with no branch taken.
\<close>

datatype key_step = Continue | Assign public_key | NoAssign

definition keyMaterial :: "jwks_backend \<Rightarrow> KeyType \<Rightarrow> KeyEntry \<Rightarrow> key_step" where
  "keyMaterial b ty key =
     (if ty = KeyType_ED25519 then
        (case base64_DecodeString b (FormattedPublicKey key) of
           None \<Rightarrow> Continue
         | Some keyBytes \<Rightarrow> Assign (Ed25519PublicKey keyBytes))
      else if FormattedPublicKey key \<noteq> [] then
        (case pem_Decode b (FormattedPublicKey key) of
           None \<Rightarrow> Continue
         | Some block \<Rightarrow>
             (case x509_ParsePKIXPublicKey b block of
                None \<Rightarrow> Continue
              | Some publicKey \<Rightarrow> Assign publicKey))
      else
        (case RSAKey key of
           Some rsa \<Rightarrow> Assign (PublicKey rsa)
         | None \<Rightarrow> NoAssign))"

text \<open>
  Lines 105 to 125 on the slice element \<open>jwkSet.Keys[keyIdx]\<close>: the \<open>Key\<close> field
  when a branch assigned it, then \<open>KeyID\<close>, \<open>Algorithm\<close> and \<open>Use\<close>.
\<close>

definition fillEntry ::
  "jwks_backend \<Rightarrow> Config \<Rightarrow> Policy \<Rightarrow> int \<Rightarrow> key_step \<Rightarrow> JSONWebKey \<Rightarrow> JSONWebKey" where
  "fillEntry b config policy version st e =
     (case st of Assign k \<Rightarrow> e\<lparr>Key := Some k\<rparr> | _ \<Rightarrow> e)
       \<lparr>KeyID := createKeyId b (backend_id b) (Name policy) version,
        Algorithm := SignatureAlgorithm config,
        Use := ''sig''\<rparr>"

text \<open>
  The \<open>for\<close> loop of lines 92 to 127, over the slice and \<open>keyIdx\<close>. An index
  at or past the slice's length is Go's run-time panic.
\<close>

function keyLoop ::
  "jwks_backend \<Rightarrow> Config \<Rightarrow> Policy \<Rightarrow> int \<Rightarrow> JSONWebKey list \<Rightarrow> nat
     \<Rightarrow> (JSONWebKey list) go_result" where
  "keyLoop b config policy version ks keyIdx =
     (if version \<le> LatestVersion policy then
        (case Keys policy (Itoa version) of
           None \<Rightarrow> keyLoop b config policy (version + 1) ks keyIdx
         | Some key \<Rightarrow>
             (case keyMaterial b (Type policy) key of
                Continue \<Rightarrow> keyLoop b config policy (version + 1) ks keyIdx
              | st \<Rightarrow>
                  if keyIdx < length ks then
                    keyLoop b config policy (version + 1)
                      (ks[keyIdx := fillEntry b config policy version st (ks ! keyIdx)])
                      (keyIdx + 1)
                  else Panics IndexOutOfRange))
      else Returns ks)"
  by pat_completeness auto
termination
  by (relation "measure (\<lambda>(b, config, policy, version, ks, keyIdx).
        nat (LatestVersion policy + 1 - version))") auto

declare keyLoop.simps [simp del]

text \<open>
  \<open>getPublicKeys\<close>. The configuration and the policy come from \<open>b.getConfig\<close> and
  \<open>b.getPolicy\<close>, which the two files do not define: their results are
  arguments. \<open>make\<close> panics on a negative length. The read lock taken around
  the loop has no part in the value returned.
\<close>

definition getPublicKeys ::
  "jwks_backend \<Rightarrow> go_error + Config \<Rightarrow> (Config \<Rightarrow> go_error + Policy)
     \<Rightarrow> (JSONWebKey list) go_result" where
  "getPublicKeys b getConfig getPolicy =
     (case getConfig of
        Inl err \<Rightarrow> Fails err
      | Inr config \<Rightarrow>
          (case getPolicy config of
             Inl err \<Rightarrow> Fails err
           | Inr policy \<Rightarrow>
               (let keyCount = (LatestVersion policy - MinDecryptionVersion policy) + 1 in
                if keyCount < 0 then Panics MakeSliceLenOutOfRange
                else keyLoop b config policy (MinDecryptionVersion policy)
                       (replicate (nat keyCount) zeroJSONWebKey) 0)))"

text \<open>
  \<open>pathJwksRead\<close>: the whole slice is handed to \<open>json.Marshal\<close> under the key
  \<open>keys\<close>; the response carries the status, the content type and the bytes.
\<close>

abbreviation HTTPStatusCode :: string where "HTTPStatusCode \<equiv> ''http_status_code''"
abbreviation HTTPContentType :: string where "HTTPContentType \<equiv> ''http_content_type''"
abbreviation HTTPRawBody :: string where "HTTPRawBody \<equiv> ''http_raw_body''"

definition jwksResponse :: "string \<Rightarrow> Response" where
  "jwksResponse jwkSetJson =
     \<lparr>Data = [HTTPStatusCode \<mapsto> VInt 200,
              HTTPContentType \<mapsto> VString ''application/jwk-set+json'',
              HTTPRawBody \<mapsto> VBytes jwkSetJson]\<rparr>"

definition marshalKeys :: "jwks_backend \<Rightarrow> JSONWebKey list \<Rightarrow> handler_result" where
  "marshalKeys b ks =
     (case json_Marshal_keys b ks of
        Inl msg \<Rightarrow> Return None (Some (MarshalError msg))
      | Inr jwkSetJson \<Rightarrow> Return (Some (jwksResponse jwkSetJson)) None)"

definition pathJwksRead ::
  "jwks_backend \<Rightarrow> go_error + Config \<Rightarrow> (Config \<Rightarrow> go_error + Policy) \<Rightarrow> handler_result" where
  "pathJwksRead b getConfig getPolicy =
     (case getPublicKeys b getConfig getPolicy of
        Fails err \<Rightarrow> Return None (Some err)
      | Panics p \<Rightarrow> Panic p
      | Returns jwkSet \<Rightarrow> marshalKeys b jwkSet)"

section \<open>The configuration endpoint (plugin/path\_config.go)\<close>

subsection \<open>Field names, field data, storage\<close>

abbreviation keySignatureAlgorithm :: string where "keySignatureAlgorithm \<equiv> ''sig_alg''"
abbreviation keyRSAKeyBits :: string where "keyRSAKeyBits \<equiv> ''rsa_key_bits''"
abbreviation keyRotationDuration :: string where "keyRotationDuration \<equiv> ''key_ttl''"
abbreviation keyTokenTTL :: string where "keyTokenTTL \<equiv> ''jwt_ttl''"
abbreviation keySetIAT :: string where "keySetIAT \<equiv> ''set_iat''"
abbreviation keySetJTI :: string where "keySetJTI \<equiv> ''set_jti''"
abbreviation keySetNBF :: string where "keySetNBF \<equiv> ''set_nbf''"
abbreviation keyAudiencePattern :: string where "keyAudiencePattern \<equiv> ''audience_pattern''"
abbreviation keySubjectPattern :: string where "keySubjectPattern \<equiv> ''subject_pattern''"
abbreviation keyMaxAllowedAudiences :: string where "keyMaxAllowedAudiences \<equiv> ''max_audiences''"
abbreviation keyAllowedClaims :: string where "keyAllowedClaims \<equiv> ''allowed_claims''"

text \<open>
  \<open>framework.FieldData\<close> as the handler sees it through \<open>d.GetOk\<close>: a field that
  the request carries maps to its value, already converted by the framework to
  the type the path's schema declares; \<open>GetOk\<close> of any other field is
  \<open>(nil, false)\<close>, here \<open>None\<close>.
\<close>

type_synonym FieldData = "string \<rightharpoonup> field_value"

text \<open>
  What \<open>pathConfigWrite\<close> uses and the file does not define: the host's lease
  ceiling \<open>b.System().MaxLeaseTTL()\<close>, the repository's three fixed lists, the
  configuration a mount starts with, and the library calls
  \<open>time.ParseDuration\<close> (\<open>Inl\<close> its error), \<open>Duration.String\<close> and
  \<open>regexp.Compile\<close> (\<open>Some\<close> its error). They are parameters of the model.
\<close>

record config_backend =
  MaxLeaseTTL :: int
  AllowedSignatureAlgorithmNames :: "string list"
  AllowedRSAKeyBits :: "int list"
  ReservedClaims :: "string list"
  DefaultConfig :: Config
  time_ParseDuration :: "string \<Rightarrow> string + int"
  Duration_String :: "int \<Rightarrow> string"
  regexp_Compile :: "string \<Rightarrow> string option"

text \<open>
  The mount's storage: the one configuration record it holds, if any, and the
  error, if any, that a get or a put of it meets.
\<close>

record Storage =
  entry :: "Config option"
  getFault :: "string option"
  putFault :: "string option"

text \<open>
  Modelled from the spec: \<open>b.getConfig\<close> and \<open>b.saveConfig\<close>, which the two files
  call and do not define. The store keeps one Config per mount; a get of an
  absent record gives the defaults; what a get hands out is a copy, so changing
  it changes nothing stored; a failing get or put changes nothing and its
  error goes to the caller.
\<close>

definition getConfig :: "config_backend \<Rightarrow> Storage \<Rightarrow> go_error + Config" where
  "getConfig b stg =
     (case getFault stg of
        Some msg \<Rightarrow> Inl (StorageError msg)
      | None \<Rightarrow> (case entry stg of None \<Rightarrow> Inr (DefaultConfig b) | Some config \<Rightarrow> Inr config))"

definition saveConfig :: "Storage \<Rightarrow> Config \<Rightarrow> go_error + Storage" where
  "saveConfig stg config =
     (case putFault stg of
        Some msg \<Rightarrow> Inl (StorageError msg)
      | None \<Rightarrow> Inr (stg\<lparr>entry := Some config\<rparr>))"

subsection \<open>Helpers of the file\<close>

fun stringInSlice :: "string \<Rightarrow> string list \<Rightarrow> bool" where
  "stringInSlice a [] = False"
| "stringInSlice a (b # list) = (if b = a then True else stringInSlice a list)"

fun intInSlice :: "int \<Rightarrow> int list \<Rightarrow> bool" where
  "intInSlice a [] = False"
| "intInSlice a (b # list) = (if b = a then True else intInSlice a list)"

text \<open>
  \<open>logical.ErrorResponse\<close>: a response whose data is the error text. The texts
  are built as \<open>fmt.Sprintf\<close> builds them: \<open>%s\<close> of a string slice is its
  elements between brackets, separated by spaces, and \<open>%s\<close> of an \<open>int\<close> is the
  bad-verb form \<open>%!s(int=2048)\<close>.
\<close>

definition ErrorResponse :: "string \<Rightarrow> Response" where
  "ErrorResponse text = \<lparr>Data = [''error'' \<mapsto> VString text]\<rparr>"

fun joinSpace :: "string list \<Rightarrow> string" where
  "joinSpace [] = []"
| "joinSpace [x] = x"
| "joinSpace (x # y # xs) = x @ '' '' @ joinSpace (y # xs)"

definition sprintStrings :: "string list \<Rightarrow> string" where
  "sprintStrings xs = ''['' @ joinSpace xs @ '']''"

definition sprintInts :: "int list \<Rightarrow> string" where
  "sprintInts xs = ''['' @ joinSpace (map (\<lambda>i. ''%!s(int='' @ Itoa i @ '')'') xs) @ '']''"

definition quoted :: "string \<Rightarrow> string" where
  "quoted s = CHR 0x27 # s @ [CHR 0x27]"

definition invalidRequest :: "string \<Rightarrow> handler_result" where
  "invalidRequest text = Return (Some (ErrorResponse text)) (Some ErrInvalidRequest)"

text \<open>
  \<open>configResponse\<close>: the response of a read and of a successful write.
\<close>

definition configResponse :: "config_backend \<Rightarrow> Config \<Rightarrow> handler_result" where
  "configResponse b config =
     Return (Some \<lparr>Data =
       [keySignatureAlgorithm \<mapsto> VString (SignatureAlgorithm config),
        keyRSAKeyBits \<mapsto> VInt (RSAKeyBits config),
        keyRotationDuration \<mapsto> VString (Duration_String b (KeyRotationPeriod config)),
        keyTokenTTL \<mapsto> VString (Duration_String b (TokenTTL config)),
        keySetIAT \<mapsto> VBool (SetIAT config),
        keySetJTI \<mapsto> VBool (SetJTI config),
        keySetNBF \<mapsto> VBool (SetNBF config),
        keyAudiencePattern \<mapsto> VString (AudiencePattern config),
        keySubjectPattern \<mapsto> VString (SubjectPattern config),
        keyMaxAllowedAudiences \<mapsto> VInt (MaxAudiences config),
        keyAllowedClaims \<mapsto> VStringSlice (AllowedClaims config)]\<rparr>) None"

subsection \<open>pathConfigWrite\<close>

text \<open>
  Each \<open>if ..., ok := d.GetOk(...); ok\<close> block of \<open>pathConfigWrite\<close> is one
  function from the configuration so far to either the handler's early return
  (\<open>Inl\<close>) or the configuration after the block (\<open>Inr\<close>). A type assertion with
  no \<open>ok\<close> result panics on a value of another type.
\<close>

type_synonym field_step = "Config \<Rightarrow> handler_result + Config"

definition writeSignatureAlgorithm :: "config_backend \<Rightarrow> FieldData \<Rightarrow> field_step" where
  "writeSignatureAlgorithm b d config =
     (case d keySignatureAlgorithm of
        None \<Rightarrow> Inr config
      | Some (VString newSignatureAlgorithmName) \<Rightarrow>
          if \<not> stringInSlice newSignatureAlgorithmName (AllowedSignatureAlgorithmNames b)
          then Inl (invalidRequest
                 (''unknown/unsupported signature algorithm, must be one of '' @
                  sprintStrings (AllowedSignatureAlgorithmNames b)))
          else Inr (config\<lparr>SignatureAlgorithm := newSignatureAlgorithmName\<rparr>)
      | Some _ \<Rightarrow> Inl (invalidRequest ''sig_alg must be a string''))"

definition writeRSAKeyBits :: "config_backend \<Rightarrow> FieldData \<Rightarrow> field_step" where
  "writeRSAKeyBits b d config =
     (case d keyRSAKeyBits of
        None \<Rightarrow> Inr config
      | Some (VInt newRSAKeyBits) \<Rightarrow>
          if \<not> intInSlice newRSAKeyBits (AllowedRSAKeyBits b)
          then Inl (invalidRequest
                 (''unsupported rsa_key_bits, must be one of '' @
                  sprintInts (AllowedRSAKeyBits b)))
          else Inr (config\<lparr>RSAKeyBits := newRSAKeyBits\<rparr>)
      | Some _ \<Rightarrow> Inl (invalidRequest ''rsa_key_bits must be an integer''))"

definition writeRotationDuration :: "config_backend \<Rightarrow> FieldData \<Rightarrow> field_step" where
  "writeRotationDuration b d config =
     (case d keyRotationDuration of
        None \<Rightarrow> Inr config
      | Some (VString newRotationPeriod) \<Rightarrow>
          (case time_ParseDuration b newRotationPeriod of
             Inl err \<Rightarrow> Inl (Return None (Some (ParseDurationError err)))
           | Inr duration \<Rightarrow> Inr (config\<lparr>KeyRotationPeriod := duration\<rparr>))
      | Some _ \<Rightarrow> Inl (Panic InterfaceConversion))"

definition writeTokenTTL :: "config_backend \<Rightarrow> FieldData \<Rightarrow> field_step" where
  "writeTokenTTL b d config =
     (case d keyTokenTTL of
        None \<Rightarrow> Inr config
      | Some (VString newTTL) \<Rightarrow>
          (case time_ParseDuration b newTTL of
             Inl err \<Rightarrow> Inl (Return None (Some (ParseDurationError err)))
           | Inr duration \<Rightarrow> Inr (config\<lparr>TokenTTL := duration\<rparr>))
      | Some _ \<Rightarrow> Inl (Panic InterfaceConversion))"

definition writeSetIAT :: "FieldData \<Rightarrow> field_step" where
  "writeSetIAT d config =
     (case d keySetIAT of
        None \<Rightarrow> Inr config
      | Some (VBool newSetIat) \<Rightarrow> Inr (config\<lparr>SetIAT := newSetIat\<rparr>)
      | Some _ \<Rightarrow> Inl (Panic InterfaceConversion))"

definition writeSetJTI :: "FieldData \<Rightarrow> field_step" where
  "writeSetJTI d config =
     (case d keySetJTI of
        None \<Rightarrow> Inr config
      | Some (VBool newSetJTI) \<Rightarrow> Inr (config\<lparr>SetJTI := newSetJTI\<rparr>)
      | Some _ \<Rightarrow> Inl (Panic InterfaceConversion))"

definition writeSetNBF :: "FieldData \<Rightarrow> field_step" where
  "writeSetNBF d config =
     (case d keySetNBF of
        None \<Rightarrow> Inr config
      | Some (VBool newSetNBF) \<Rightarrow> Inr (config\<lparr>SetNBF := newSetNBF\<rparr>)
      | Some _ \<Rightarrow> Inl (Panic InterfaceConversion))"

definition writeAudiencePattern :: "config_backend \<Rightarrow> FieldData \<Rightarrow> field_step" where
  "writeAudiencePattern b d config =
     (case d keyAudiencePattern of
        None \<Rightarrow> Inr config
      | Some (VString newAudiencePattern) \<Rightarrow>
          (let config' = config\<lparr>AudiencePattern := newAudiencePattern\<rparr> in
           case regexp_Compile b (AudiencePattern config') of
             Some err \<Rightarrow>
               Inl (Return (Some (ErrorResponse ''invalid audience pattern''))
                      (Some (RegexpError err)))
           | None \<Rightarrow> Inr config')
      | Some _ \<Rightarrow> Inl (Panic InterfaceConversion))"

definition writeSubjectPattern :: "config_backend \<Rightarrow> FieldData \<Rightarrow> field_step" where
  "writeSubjectPattern b d config =
     (case d keySubjectPattern of
        None \<Rightarrow> Inr config
      | Some (VString newSubjectPattern) \<Rightarrow>
          (let config' = config\<lparr>SubjectPattern := newSubjectPattern\<rparr> in
           case regexp_Compile b (SubjectPattern config') of
             Some err \<Rightarrow>
               Inl (Return (Some (ErrorResponse ''invalid subject pattern''))
                      (Some (RegexpError err)))
           | None \<Rightarrow> Inr config')
      | Some _ \<Rightarrow> Inl (Panic InterfaceConversion))"

definition writeMaxAudiences :: "FieldData \<Rightarrow> field_step" where
  "writeMaxAudiences d config =
     (case d keyMaxAllowedAudiences of
        None \<Rightarrow> Inr config
      | Some (VInt newMaxAudiences) \<Rightarrow> Inr (config\<lparr>MaxAudiences := newMaxAudiences\<rparr>)
      | Some _ \<Rightarrow> Inl (Panic InterfaceConversion))"

text \<open>
  The \<open>range\<close> loop over the new allowed claims: the first one that is reserved,
  if any.
\<close>

fun firstReserved :: "string list \<Rightarrow> string list \<Rightarrow> string option" where
  "firstReserved reserved [] = None"
| "firstReserved reserved (newAllowedClaim # rest) =
     (if stringInSlice newAllowedClaim reserved then Some newAllowedClaim
      else firstReserved reserved rest)"

definition writeAllowedClaims :: "config_backend \<Rightarrow> FieldData \<Rightarrow> field_step" where
  "writeAllowedClaims b d config =
     (case d keyAllowedClaims of
        None \<Rightarrow> Inr config
      | Some (VStringSlice newAllowedClaims) \<Rightarrow>
          (case firstReserved (ReservedClaims b) newAllowedClaims of
             Some newAllowedClaim \<Rightarrow>
               Inl (invalidRequest
                 (quoted newAllowedClaim @
                  '' claim is reserved and not permitted in allowed_claims''))
           | None \<Rightarrow> Inr (config\<lparr>AllowedClaims := newAllowedClaims\<rparr>))
      | Some _ \<Rightarrow> Inl (Panic InterfaceConversion))"

text \<open>The blocks in the order of the source, each run unless one before it returned.\<close>

definition andThen :: "handler_result + Config \<Rightarrow> field_step \<Rightarrow> handler_result + Config" where
  "andThen r f = (case r of Inl out \<Rightarrow> Inl out | Inr config \<Rightarrow> f config)"

definition overlayFields :: "config_backend \<Rightarrow> FieldData \<Rightarrow> field_step" where
  "overlayFields b d config =
     foldl andThen (Inr config)
       [writeSignatureAlgorithm b d,
        writeRSAKeyBits b d,
        writeRotationDuration b d,
        writeTokenTTL b d,
        writeSetIAT d,
        writeSetJTI d,
        writeSetNBF d,
        writeAudiencePattern b d,
        writeSubjectPattern b d,
        writeMaxAudiences d,
        writeAllowedClaims b d]"

text \<open>
  \<open>pathConfigWrite\<close>: the handler's return and the storage after it.
\<close>

definition pathConfigWrite ::
  "config_backend \<Rightarrow> Storage \<Rightarrow> FieldData \<Rightarrow> handler_result \<times> Storage" where
  "pathConfigWrite b stg d =
     (case getConfig b stg of
        Inl err \<Rightarrow> (Return None (Some err), stg)
      | Inr config0 \<Rightarrow>
          (case overlayFields b d config0 of
             Inl out \<Rightarrow> (out, stg)
           | Inr config \<Rightarrow>
               if TokenTTL config > MaxLeaseTTL b then
                 (invalidRequest (quoted keyTokenTTL @ '' is greater that the max lease ttl''), stg)
               else
                 (case saveConfig stg config of
                    Inl err \<Rightarrow> (Return None (Some err), stg)
                  | Inr stg' \<Rightarrow> (configResponse b config, stg'))))"

definition pathConfigRead :: "config_backend \<Rightarrow> Storage \<Rightarrow> handler_result" where
  "pathConfigRead b stg =
     (case getConfig b stg of
        Inl err \<Rightarrow> Return None (Some err)
      | Inr config \<Rightarrow> configResponse b config)"

section \<open>What the two endpoints compute\<close>

subsection \<open>The versions the loop writes an entry for\<close>

text \<open>
  What the body of the loop does with one version: a version with no entry in
  the map and a version whose decoding fails both end in \<open>continue\<close>.
\<close>

definition stepOf :: "jwks_backend \<Rightarrow> Policy \<Rightarrow> int \<Rightarrow> key_step" where
  "stepOf b policy version =
     (case Keys policy (Itoa version) of
        None \<Rightarrow> Continue
      | Some key \<Rightarrow> keyMaterial b (Type policy) key)"

text \<open>
  The versions from \<open>start\<close> up to the latest one, in ascending order, at which
  the loop reaches line 123 and advances \<open>keyIdx\<close>.
\<close>

definition written :: "jwks_backend \<Rightarrow> Policy \<Rightarrow> int \<Rightarrow> int list" where
  "written b policy start =
     filter (\<lambda>v. stepOf b policy v \<noteq> Continue) [start..LatestVersion policy]"

text \<open>The entry the loop leaves in the slice for such a version.\<close>

definition entryOf :: "jwks_backend \<Rightarrow> Config \<Rightarrow> Policy \<Rightarrow> int \<Rightarrow> JSONWebKey" where
  "entryOf b config policy v =
     fillEntry b config policy v (stepOf b policy v) zeroJSONWebKey"

subsection \<open>Outcomes of a handler\<close>

text \<open>
  A handler succeeded when it returned with a \<open>nil\<close> error. The data of the
  response it returned, if it returned one.
\<close>

definition succeeded :: "handler_result \<Rightarrow> bool" where
  "succeeded out = (case out of Return resp None \<Rightarrow> True | _ \<Rightarrow> False)"

definition responseData :: "handler_result \<Rightarrow> string \<rightharpoonup> field_value" where
  "responseData out = (case out of Return (Some resp) err \<Rightarrow> Data resp | _ \<Rightarrow> Map.empty)"


text \<open>A write followed by a read of the storage the write left.\<close>

definition writeThenRead :: "config_backend \<Rightarrow> Storage \<Rightarrow> FieldData \<Rightarrow> handler_result" where
  "writeThenRead b stg d = pathConfigRead b (snd (pathConfigWrite b stg d))"

section \<open>Example inputs\<close>

subsection \<open>Key policies\<close>

text \<open>
  A mount whose decoders know two PEM blocks and one base64 string, and whose
  serialiser lists the key identifiers it is given, one per line.
\<close>

definition exampleJwks :: jwks_backend where
  "exampleJwks =
     \<lparr>backend_id = ''mount'',
      createKeyId = (\<lambda>ident name version. ident @ ''.'' @ name @ ''.'' @ Itoa version),
      base64_DecodeString = (\<lambda>s. if s = ''QUJD'' then Some ''ABC'' else None),
      pem_Decode =
        (\<lambda>s. if s = ''PEM2'' then Some ''DER2''
             else if s = ''PEM4'' then Some ''DER4'' else None),
      x509_ParsePKIXPublicKey =
        (\<lambda>der. if der = ''DER2'' then Some (ECDSAPublicKey ''P-256'' 21 22)
               else if der = ''DER4'' then Some (ECDSAPublicKey ''P-256'' 41 42) else None),
      json_Marshal_keys = (\<lambda>ks. Inr (concat (map (\<lambda>k. KeyID k @ [CHR 0x0A]) ks)))\<rparr>"

definition exampleConfig :: Config where
  "exampleConfig =
     \<lparr>SignatureAlgorithm = ''ES256'',
      RSAKeyBits = 2048,
      KeyRotationPeriod = 7200000000000,
      TokenTTL = 180000000000,
      SetIAT = True,
      SetJTI = True,
      SetNBF = True,
      AudiencePattern = [],
      SubjectPattern = [],
      MaxAudiences = - 1,
      AllowedClaims = []\<rparr>"

text \<open>Versions 2 to 4 with version 3 pruned from the map.\<close>

definition gapPolicy :: Policy where
  "gapPolicy =
     \<lparr>Name = ''jwt'',
      Type = KeyType_ECDSA_P256,
      LatestVersion = 4,
      MinDecryptionVersion = 2,
      Keys = [''2'' \<mapsto> \<lparr>FormattedPublicKey = ''PEM2'', RSAKey = None\<rparr>,
              ''4'' \<mapsto> \<lparr>FormattedPublicKey = ''PEM4'', RSAKey = None\<rparr>]\<rparr>"

text \<open>
  One version, present in the map, of a policy that is not ED25519, with
  neither a formatted public key nor an RSA key structure.
\<close>

definition bareKeyPolicy :: Policy where
  "bareKeyPolicy =
     \<lparr>Name = ''jwt'',
      Type = KeyType_ECDSA_P256,
      LatestVersion = 1,
      MinDecryptionVersion = 1,
      Keys = [''1'' \<mapsto> \<lparr>FormattedPublicKey = [], RSAKey = None\<rparr>]\<rparr>"

text \<open>
  Two versions of an ED25519 policy; the first one's public key is not base64.
\<close>

definition brokenKeyPolicy :: Policy where
  "brokenKeyPolicy =
     \<lparr>Name = ''jwt'',
      Type = KeyType_ED25519,
      LatestVersion = 2,
      MinDecryptionVersion = 1,
      Keys = [''1'' \<mapsto> \<lparr>FormattedPublicKey = ''!!'', RSAKey = None\<rparr>,
              ''2'' \<mapsto> \<lparr>FormattedPublicKey = ''QUJD'', RSAKey = None\<rparr>]\<rparr>"

subsection \<open>Configuration\<close>

text \<open>
  A host with a lease ceiling of 24 hours. The two duration functions are
  tables: on the strings and durations listed they give what Go's
  \<open>time.ParseDuration\<close> and \<open>Duration.String\<close> give, and nothing below uses them
  elsewhere. The only pattern that does not compile is an open parenthesis.
\<close>

definition exampleParseDuration :: "string \<Rightarrow> string + int" where
  "exampleParseDuration s =
     (if s = ''60m'' then Inr 3600000000000
      else if s = ''1h0m0s'' then Inr 3600000000000
      else if s = ''5m'' then Inr 300000000000
      else if s = ''5m0s'' then Inr 300000000000
      else if s = ''48h'' then Inr 172800000000000
      else Inl (''time: invalid duration '' @ [CHR 0x22] @ s @ [CHR 0x22]))"

definition exampleDurationString :: "int \<Rightarrow> string" where
  "exampleDurationString n =
     (if n = 3600000000000 then ''1h0m0s''
      else if n = 300000000000 then ''5m0s''
      else if n = 180000000000 then ''3m0s''
      else if n = 7200000000000 then ''2h0m0s''
      else if n = 172800000000000 then ''48h0m0s''
      else Itoa n @ ''ns'')"

definition exampleBackend :: config_backend where
  "exampleBackend =
     \<lparr>MaxLeaseTTL = 86400000000000,
      AllowedSignatureAlgorithmNames = [''ES256'', ''ES384'', ''ES512'', ''RS256'', ''RS384'', ''RS512''],
      AllowedRSAKeyBits = [2048, 3072, 4096],
      ReservedClaims = [''sub'', ''iss'', ''aud'', ''exp'', ''nbf'', ''iat'', ''jti''],
      DefaultConfig = exampleConfig,
      time_ParseDuration = exampleParseDuration,
      Duration_String = exampleDurationString,
      regexp_Compile = (\<lambda>expr. if expr = ''('' then Some ''missing closing )'' else None)\<rparr>"

text \<open>A storage that holds the configuration above and whose calls succeed.\<close>

definition exampleStorage :: Storage where
  "exampleStorage = \<lparr>entry = Some exampleConfig, getFault = None, putFault = None\<rparr>"

text \<open>The same host after its lease ceiling was lowered to one minute.\<close>

definition loweredBackend :: config_backend where
  "loweredBackend = exampleBackend\<lparr>MaxLeaseTTL := 60000000000\<rparr>"

text \<open>
  A request that sets every field of the path's schema, \<open>issuer\<close> included.
\<close>

definition everyField :: FieldData where
  "everyField =
     [keySignatureAlgorithm \<mapsto> VString ''RS256'',
      keyRSAKeyBits \<mapsto> VInt 4096,
      keyRotationDuration \<mapsto> VString ''60m'',
      keyTokenTTL \<mapsto> VString ''5m'',
      keySetIAT \<mapsto> VBool False,
      keySetJTI \<mapsto> VBool False,
      keySetNBF \<mapsto> VBool False,
      ''issuer'' \<mapsto> VString ''https://vault.example'',
      keyAudiencePattern \<mapsto> VString ''api-.*'',
      keySubjectPattern \<mapsto> VString ''svc-.*'',
      keyMaxAllowedAudiences \<mapsto> VInt (- 1),
      keyAllowedClaims \<mapsto> VStringSlice [''groups'', ''email'']]"

text \<open>Requests that fail one check among fields that pass theirs.\<close>

definition unknownAlgorithmUpdate :: FieldData where
  "unknownAlgorithmUpdate =
     [keySignatureAlgorithm \<mapsto> VString ''HS256'',
      keySetIAT \<mapsto> VBool False,
      keyMaxAllowedAudiences \<mapsto> VInt 3]"


definition longTTLUpdate :: FieldData where
  "longTTLUpdate =
     [keySetJTI \<mapsto> VBool False,
      keyTokenTTL \<mapsto> VString ''48h'']"

definition badRotationUpdate :: FieldData where
  "badRotationUpdate = [keyRotationDuration \<mapsto> VString ''soon'']"

definition badTTLUpdate :: FieldData where
  "badTTLUpdate = [keyTokenTTL \<mapsto> VString ''soon'']"

definition unrelatedUpdate :: FieldData where
  "unrelatedUpdate = [keySetNBF \<mapsto> VBool False]"


section \<open>The key set that getPublicKeys returns\<close>

subsection \<open>The loop\<close>

lemma written_past:
  "LatestVersion policy < version \<Longrightarrow> written b policy version = []"
  by (simp add: written_def)

lemma written_skip:
  "version \<le> LatestVersion policy \<Longrightarrow> stepOf b policy version = Continue \<Longrightarrow>
   written b policy version = written b policy (version + 1)"
  by (simp add: written_def upto_rec1 [of version])

lemma written_keep:
  "version \<le> LatestVersion policy \<Longrightarrow> stepOf b policy version \<noteq> Continue \<Longrightarrow>
   written b policy version = version # written b policy (version + 1)"
  by (simp add: written_def upto_rec1 [of version])

lemma written_length:
  "length (written b policy start) \<le> nat (LatestVersion policy - start + 1)"
proof -
  have "length (written b policy start) \<le> length [start..LatestVersion policy]"
    unfolding written_def by (rule length_filter_le)
  then show ?thesis by simp
qed

lemma keyLoop_past:
  "LatestVersion policy < version \<Longrightarrow> keyLoop b config policy version ks keyIdx = Returns ks"
  by (simp add: keyLoop.simps)

lemma keyLoop_skip:
  "version \<le> LatestVersion policy \<Longrightarrow> stepOf b policy version = Continue \<Longrightarrow>
   keyLoop b config policy version ks keyIdx = keyLoop b config policy (version + 1) ks keyIdx"
  by (subst keyLoop.simps) (simp add: stepOf_def split: option.splits)

lemma keyLoop_keep:
  "version \<le> LatestVersion policy \<Longrightarrow> stepOf b policy version \<noteq> Continue \<Longrightarrow>
   keyIdx < length ks \<Longrightarrow>
   keyLoop b config policy version ks keyIdx =
     keyLoop b config policy (version + 1)
       (ks[keyIdx := fillEntry b config policy version (stepOf b policy version) (ks ! keyIdx)])
       (keyIdx + 1)"
  by (subst keyLoop.simps) (simp add: stepOf_def split: option.splits key_step.splits)

text \<open>
  The loop invariant: started on a slice whose first \<open>keyIdx\<close> elements are
  \<open>pre\<close> and whose other \<open>n\<close> elements are zero values, with room for every
  version still to be written, the loop returns \<open>pre\<close>, then one entry per
  written version, then the zero values it did not reach.
\<close>

lemma keyLoop_fills:
  "length (written b policy version) \<le> n \<Longrightarrow>
   keyLoop b config policy version (pre @ replicate n zeroJSONWebKey) (length pre) =
     Returns (pre @ map (entryOf b config policy) (written b policy version)
                @ replicate (n - length (written b policy version)) zeroJSONWebKey)"
proof (induction "nat (LatestVersion policy + 1 - version)" arbitrary: version pre n)
  case 0
  then have past: "LatestVersion policy < version" by simp
  show ?case by (simp add: keyLoop_past [OF past] written_past [OF past])
next
  case (Suc k)
  then have inr: "version \<le> LatestVersion policy" by simp
  have k: "k = nat (LatestVersion policy + 1 - (version + 1))" using Suc.hyps(2) by simp
  show ?case
  proof (cases "stepOf b policy version = Continue")
    case True
    have "length (written b policy (version + 1)) \<le> n"
      using Suc.prems written_skip [OF inr True] by simp
    from Suc.hyps(1) [OF k this, of pre] show ?thesis
      by (simp add: keyLoop_skip [OF inr True] written_skip [OF inr True])
  next
    case False
    have w: "written b policy version = version # written b policy (version + 1)"
      by (rule written_keep [OF inr False])
    then obtain m where n: "n = Suc m" and m: "length (written b policy (version + 1)) \<le> m"
      using Suc.prems by (cases n) simp_all
    let ?e = "entryOf b config policy version"
    have upd: "(pre @ replicate n zeroJSONWebKey)
                 [length pre := fillEntry b config policy version (stepOf b policy version)
                    ((pre @ replicate n zeroJSONWebKey) ! length pre)]
               = (pre @ [?e]) @ replicate m zeroJSONWebKey"
      by (simp add: n entryOf_def)
    have "keyLoop b config policy version (pre @ replicate n zeroJSONWebKey) (length pre) =
          keyLoop b config policy (version + 1) ((pre @ [?e]) @ replicate m zeroJSONWebKey)
            (length (pre @ [?e]))"
      using keyLoop_keep [OF inr False, of "length pre" "pre @ replicate n zeroJSONWebKey" config]
      by (simp only: upd) (simp add: n)
    also have "\<dots> = Returns ((pre @ [?e]) @ map (entryOf b config policy) (written b policy (version + 1))
                @ replicate (m - length (written b policy (version + 1))) zeroJSONWebKey)"
      by (rule Suc.hyps(1) [OF k m])
    finally show ?thesis by (simp add: w n)
  qed
qed

text \<open>
  \<open>getPublicKeys\<close> on a configuration and a policy that load: a panic when the
  slice length is negative, and otherwise the written entries followed by zero
  values up to the slice length.
\<close>

lemma getPublicKeys_returns:
  assumes "getPolicy config = Inr policy"
  shows "getPublicKeys b (Inr config) getPolicy =
           (if LatestVersion policy - MinDecryptionVersion policy + 1 < 0
            then Panics MakeSliceLenOutOfRange
            else Returns
              (map (entryOf b config policy) (written b policy (MinDecryptionVersion policy))
               @ replicate
                   (nat (LatestVersion policy - MinDecryptionVersion policy + 1)
                      - length (written b policy (MinDecryptionVersion policy)))
                   zeroJSONWebKey))"
proof -
  let ?n = "nat (LatestVersion policy - MinDecryptionVersion policy + 1)"
  have "keyLoop b config policy (MinDecryptionVersion policy)
          ([] @ replicate ?n zeroJSONWebKey) (length ([] :: JSONWebKey list)) =
        Returns ([] @ map (entryOf b config policy) (written b policy (MinDecryptionVersion policy))
                 @ replicate (?n - length (written b policy (MinDecryptionVersion policy)))
                     zeroJSONWebKey)"
    by (rule keyLoop_fills) (rule written_length)
  then show ?thesis
    using assms by (simp add: getPublicKeys_def Let_def)
qed

subsection \<open>The examples, evaluated\<close>

lemma Itoa_small [simp]:
  "Itoa 1 = ''1''" "Itoa 2 = ''2''" "Itoa 3 = ''3''" "Itoa 4 = ''4''"
  by (simp_all add: Itoa_def digits.simps)

lemma gapPolicy_steps:
  "stepOf exampleJwks gapPolicy 2 = Assign (ECDSAPublicKey ''P-256'' 21 22)"
  "stepOf exampleJwks gapPolicy 3 = Continue"
  "stepOf exampleJwks gapPolicy 4 = Assign (ECDSAPublicKey ''P-256'' 41 42)"
  by (simp_all add: stepOf_def gapPolicy_def keyMaterial_def exampleJwks_def)

lemma gapPolicy_written:
  "written exampleJwks gapPolicy 2 = [2, 4]"
proof -
  have "LatestVersion gapPolicy = 4" by (simp add: gapPolicy_def)
  then show ?thesis by (simp add: written_def gapPolicy_steps)
qed

lemma gapPolicy_entries:
  "entryOf exampleJwks exampleConfig gapPolicy 2 =
     \<lparr>Key = Some (ECDSAPublicKey ''P-256'' 21 22), KeyID = ''mount.jwt.2'',
      Algorithm = ''ES256'', Use = ''sig''\<rparr>"
  "entryOf exampleJwks exampleConfig gapPolicy 4 =
     \<lparr>Key = Some (ECDSAPublicKey ''P-256'' 41 42), KeyID = ''mount.jwt.4'',
      Algorithm = ''ES256'', Use = ''sig''\<rparr>"
  unfolding entryOf_def gapPolicy_steps fillEntry_def zeroJSONWebKey_def
  by (simp_all add: exampleJwks_def exampleConfig_def gapPolicy_def)

lemma gapPolicy_keys:
  "getPublicKeys exampleJwks (Inr exampleConfig) (\<lambda>config. Inr gapPolicy) =
     Returns
       [\<lparr>Key = Some (ECDSAPublicKey ''P-256'' 21 22), KeyID = ''mount.jwt.2'',
         Algorithm = ''ES256'', Use = ''sig''\<rparr>,
        \<lparr>Key = Some (ECDSAPublicKey ''P-256'' 41 42), KeyID = ''mount.jwt.4'',
         Algorithm = ''ES256'', Use = ''sig''\<rparr>,
        \<lparr>Key = None, KeyID = [], Algorithm = [], Use = []\<rparr>]"
proof -
  have "MinDecryptionVersion gapPolicy = 2" "LatestVersion gapPolicy = 4"
    by (simp_all add: gapPolicy_def)
  then show ?thesis
    by (simp add: getPublicKeys_returns [of _ _ gapPolicy] gapPolicy_written gapPolicy_entries
          zeroJSONWebKey_def)
qed

lemma bareKeyPolicy_keys:
  "getPublicKeys exampleJwks (Inr exampleConfig) (\<lambda>config. Inr bareKeyPolicy) =
     Returns [\<lparr>Key = None, KeyID = ''mount.jwt.1'', Algorithm = ''ES256'', Use = ''sig''\<rparr>]"
proof -
  have v: "MinDecryptionVersion bareKeyPolicy = 1" "LatestVersion bareKeyPolicy = 1"
    by (simp_all add: bareKeyPolicy_def)
  have s: "stepOf exampleJwks bareKeyPolicy 1 = NoAssign"
    by (simp add: stepOf_def bareKeyPolicy_def keyMaterial_def)
  have w: "written exampleJwks bareKeyPolicy 1 = [1]"
    by (simp add: written_def v s)
  have e: "entryOf exampleJwks exampleConfig bareKeyPolicy 1 =
             \<lparr>Key = None, KeyID = ''mount.jwt.1'', Algorithm = ''ES256'', Use = ''sig''\<rparr>"
    unfolding entryOf_def s fillEntry_def zeroJSONWebKey_def
    by (simp add: exampleJwks_def exampleConfig_def bareKeyPolicy_def)
  show ?thesis
    by (simp add: getPublicKeys_returns [of _ _ bareKeyPolicy] v w e)
qed

lemma brokenKeyPolicy_keys:
  "getPublicKeys exampleJwks (Inr exampleConfig) (\<lambda>config. Inr brokenKeyPolicy) =
     Returns
       [\<lparr>Key = Some (Ed25519PublicKey ''ABC''), KeyID = ''mount.jwt.2'',
         Algorithm = ''ES256'', Use = ''sig''\<rparr>,
        \<lparr>Key = None, KeyID = [], Algorithm = [], Use = []\<rparr>]"
proof -
  have v: "MinDecryptionVersion brokenKeyPolicy = 1" "LatestVersion brokenKeyPolicy = 2"
    by (simp_all add: brokenKeyPolicy_def)
  have s: "stepOf exampleJwks brokenKeyPolicy 1 = Continue"
          "stepOf exampleJwks brokenKeyPolicy 2 = Assign (Ed25519PublicKey ''ABC'')"
    by (simp_all add: stepOf_def brokenKeyPolicy_def keyMaterial_def exampleJwks_def)
  have "[1..2] = [1, 2 :: int]"
    by (simp add: upto_rec1)
  then have w: "written exampleJwks brokenKeyPolicy 1 = [2]"
    by (simp add: written_def v s)
  have e: "entryOf exampleJwks exampleConfig brokenKeyPolicy 2 =
             \<lparr>Key = Some (Ed25519PublicKey ''ABC''), KeyID = ''mount.jwt.2'',
              Algorithm = ''ES256'', Use = ''sig''\<rparr>"
    unfolding entryOf_def s fillEntry_def zeroJSONWebKey_def
    by (simp add: exampleJwks_def exampleConfig_def brokenKeyPolicy_def)
  show ?thesis
    by (simp add: getPublicKeys_returns [of _ _ brokenKeyPolicy] v w e zeroJSONWebKey_def)
qed

subsection \<open>The size of the key set\<close>

text \<open>
  C1. The specification bounds the size of the key set by
  \<open>latestVersion - minDecryptionVersion + 1\<close> and has it reach the bound exactly
  when no version is missing and no key fails to decode. The code never
  shortens the slice it allocated: on the policy with versions 2 to 4 and
  version 3 missing from the map, the key set still has
  \<open>latestVersion - minDecryptionVersion + 1 = 3\<close> elements.
\<close>

theorem getPublicKeys_size_with_gap:
  "Keys gapPolicy (Itoa 3) = None \<and>
   (\<exists>ks. getPublicKeys exampleJwks (Inr exampleConfig) (\<lambda>config. Inr gapPolicy) = Returns ks \<and>
      int (length ks) = LatestVersion gapPolicy - MinDecryptionVersion gapPolicy + 1)"
  by (simp add: gapPolicy_keys) (simp add: gapPolicy_def)

text \<open>
  C2. With \<open>minDecryptionVersion = 2\<close>, \<open>latestVersion = 4\<close> and version 3 absent,
  the specification's key set has exactly two entries, for versions 2 and 4.
  The code returns three: the entries of versions 2 and 4, then a zero value
  with an empty key identifier.
\<close>

theorem getPublicKeys_gap_scenario:
  "\<exists>ks. getPublicKeys exampleJwks (Inr exampleConfig) (\<lambda>config. Inr gapPolicy) = Returns ks \<and>
     length ks = 3 \<and>
     map KeyID ks = [''mount.jwt.2'', ''mount.jwt.4'', ''''] \<and>
     ks ! 2 = zeroJSONWebKey"
  by (simp add: gapPolicy_keys zeroJSONWebKey_def)

text \<open>
  C3. In the specification a key that is not ED25519, has an empty formatted
  public key and has no RSA key structure contributes nothing. In the code the
  \<open>if\<close> chain has no last \<open>else\<close>: such a key takes no branch, and the
  statements after the chain still write an entry for it, with a key
  identifier, the algorithm and the use, and with no key.
\<close>

theorem getPublicKeys_key_without_material:
  "Type bareKeyPolicy \<noteq> KeyType_ED25519 \<and>
   Keys bareKeyPolicy (Itoa 1) = Some \<lparr>FormattedPublicKey = [], RSAKey = None\<rparr> \<and>
   getPublicKeys exampleJwks (Inr exampleConfig) (\<lambda>config. Inr bareKeyPolicy) =
     Returns [\<lparr>Key = None, KeyID = ''mount.jwt.1'', Algorithm = ''ES256'', Use = ''sig''\<rparr>]"
  by (simp add: bareKeyPolicy_keys) (simp add: bareKeyPolicy_def)

text \<open>
  C5. In the specification every entry of the key set has the use \<open>sig\<close> and
  the configured algorithm. The entries the loop writes have them; the zero
  values left at the end of the slice have an empty use and an empty
  algorithm. On the ED25519 policy whose first key is not base64, the second
  element of the key set is such a zero value.
\<close>

theorem getPublicKeys_use_of_padding:
  "\<exists>ks. getPublicKeys exampleJwks (Inr exampleConfig) (\<lambda>config. Inr brokenKeyPolicy) = Returns ks \<and>
     map Use ks = [''sig'', ''''] \<and>
     map Algorithm ks = [SignatureAlgorithm exampleConfig, '''']"
  by (simp add: brokenKeyPolicy_keys) (simp add: exampleConfig_def)

text \<open>
  C9. The claim reads the list that \<open>getPublicKeys\<close> returns as the
  successfully materialised keys, in a contiguous prefix, followed by zero
  values (empty key identifier, empty use, no key). A present key that takes no
  branch of the \<open>if\<close> chain gives an element that is neither: lines 123 to 127
  still write its key identifier, algorithm and use and advance \<open>keyIdx\<close>,
  whereas a missing version and a failed decode \<open>continue\<close> and leave the
  position to the next key or to the zero value. On the policy whose only key
  is such a key, the list has the length
  \<open>latestVersion - minDecryptionVersion + 1 = 1\<close>, and its one element has no
  key and is not the zero value.
\<close>

theorem getPublicKeys_keyless_entry:
  "\<exists>ks. getPublicKeys exampleJwks (Inr exampleConfig) (\<lambda>config. Inr bareKeyPolicy) = Returns ks \<and>
     int (length ks) = LatestVersion bareKeyPolicy - MinDecryptionVersion bareKeyPolicy + 1 \<and>
     Key (ks ! 0) = None \<and>
     KeyID (ks ! 0) = ''mount.jwt.1'' \<and>
     Use (ks ! 0) = ''sig'' \<and>
     ks ! 0 \<noteq> zeroJSONWebKey"
  by (simp add: bareKeyPolicy_keys zeroJSONWebKey_def) (simp add: bareKeyPolicy_def)

section \<open>Writing the configuration\<close>

subsection \<open>The chain of field blocks\<close>

lemma andThen_Inl [simp]: "andThen (Inl out) f = Inl out"
  by (simp add: andThen_def)

lemma andThen_Inr [simp]: "andThen (Inr config) f = f config"
  by (simp add: andThen_def)

lemma foldl_andThen_Inl [simp]: "foldl andThen (Inl out) fs = Inl out"
  by (induction fs) simp_all

text \<open>An early return of the chain is the early return of one of its blocks.\<close>

lemma foldl_andThen_fails:
  assumes "foldl andThen (Inr config) fs = Inl out"
    and "\<And>f c r. f \<in> set fs \<Longrightarrow> f c = Inl r \<Longrightarrow> P r"
  shows "P out"
  using assms
proof (induction fs arbitrary: config)
  case Nil
  then show ?case by simp
next
  case (Cons g gs)
  show ?case
  proof (cases "g config")
    case (Inl r)
    with Cons.prems(1) have "out = r" by simp
    moreover have "P r" using Cons.prems(2) [of g config r] Inl by simp
    ultimately show ?thesis by simp
  next
    case (Inr config')
    with Cons.prems(1) have "foldl andThen (Inr config') gs = Inl out" by simp
    moreover have "P r" if "f \<in> set gs" and "f c = Inl r" for f c r
      using Cons.prems(2) [of f c r] that by simp
    ultimately show ?thesis by (rule Cons.IH)
  qed
qed

text \<open>What every block leaves alone, the chain leaves alone.\<close>

lemma foldl_andThen_keeps:
  assumes "foldl andThen (Inr config) fs = Inr config'"
    and "\<And>f c c'. f \<in> set fs \<Longrightarrow> f c = Inr c' \<Longrightarrow> Q c' = Q c"
  shows "Q config' = Q config"
  using assms
proof (induction fs arbitrary: config)
  case Nil
  then show ?case by simp
next
  case (Cons g gs)
  show ?case
  proof (cases "g config")
    case (Inl r)
    with Cons.prems(1) show ?thesis by simp
  next
    case (Inr mid)
    with Cons.prems(1) have "foldl andThen (Inr mid) gs = Inr config'" by simp
    moreover have "Q c' = Q c" if "f \<in> set gs" and "f c = Inr c'" for f c c'
      using Cons.prems(2) [of f c c'] that by simp
    ultimately have "Q config' = Q mid" by (rule Cons.IH)
    moreover have "Q mid = Q config" using Cons.prems(2) [of g config mid] Inr by simp
    ultimately show ?thesis by simp
  qed
qed


subsection \<open>The blocks\<close>

lemma succeeded_simps [simp]:
  "succeeded (Return resp None)"
  "\<not> succeeded (Return resp (Some err))"
  "\<not> succeeded (Panic p)"
  by (simp_all add: succeeded_def)

lemma not_succeeded_invalidRequest [simp]: "\<not> succeeded (invalidRequest text)"
  by (simp add: invalidRequest_def)

lemma writeSignatureAlgorithm_fails:
  "writeSignatureAlgorithm b d c = Inl r \<Longrightarrow> \<not> succeeded r"
  by (auto simp add: writeSignatureAlgorithm_def split: option.splits field_value.splits if_splits)

lemma writeRSAKeyBits_fails:
  "writeRSAKeyBits b d c = Inl r \<Longrightarrow> \<not> succeeded r"
  by (auto simp add: writeRSAKeyBits_def split: option.splits field_value.splits if_splits)

lemma writeRotationDuration_fails:
  "writeRotationDuration b d c = Inl r \<Longrightarrow> \<not> succeeded r"
  by (auto simp add: writeRotationDuration_def split: option.splits field_value.splits sum.splits)

lemma writeTokenTTL_fails:
  "writeTokenTTL b d c = Inl r \<Longrightarrow> \<not> succeeded r"
  by (auto simp add: writeTokenTTL_def split: option.splits field_value.splits sum.splits)

lemma writeSetIAT_fails:
  "writeSetIAT d c = Inl r \<Longrightarrow> \<not> succeeded r"
  by (auto simp add: writeSetIAT_def split: option.splits field_value.splits)

lemma writeSetJTI_fails:
  "writeSetJTI d c = Inl r \<Longrightarrow> \<not> succeeded r"
  by (auto simp add: writeSetJTI_def split: option.splits field_value.splits)

lemma writeSetNBF_fails:
  "writeSetNBF d c = Inl r \<Longrightarrow> \<not> succeeded r"
  by (auto simp add: writeSetNBF_def split: option.splits field_value.splits)

lemma writeAudiencePattern_fails:
  "writeAudiencePattern b d c = Inl r \<Longrightarrow> \<not> succeeded r"
  by (auto simp add: writeAudiencePattern_def Let_def split: option.splits field_value.splits)

lemma writeSubjectPattern_fails:
  "writeSubjectPattern b d c = Inl r \<Longrightarrow> \<not> succeeded r"
  by (auto simp add: writeSubjectPattern_def Let_def split: option.splits field_value.splits)

lemma writeMaxAudiences_fails:
  "writeMaxAudiences d c = Inl r \<Longrightarrow> \<not> succeeded r"
  by (auto simp add: writeMaxAudiences_def split: option.splits field_value.splits)

lemma writeAllowedClaims_fails:
  "writeAllowedClaims b d c = Inl r \<Longrightarrow> \<not> succeeded r"
  by (auto simp add: writeAllowedClaims_def split: option.splits field_value.splits)

lemmas block_fails =
  writeSignatureAlgorithm_fails writeRSAKeyBits_fails writeRotationDuration_fails
  writeTokenTTL_fails writeSetIAT_fails writeSetJTI_fails writeSetNBF_fails
  writeAudiencePattern_fails writeSubjectPattern_fails writeMaxAudiences_fails
  writeAllowedClaims_fails

lemma overlayFields_fails:
  assumes "overlayFields b d config = Inl out"
  shows "\<not> succeeded out"
proof (rule foldl_andThen_fails [where P = "\<lambda>r. \<not> succeeded r"])
  show "foldl andThen (Inr config)
          [writeSignatureAlgorithm b d, writeRSAKeyBits b d, writeRotationDuration b d,
           writeTokenTTL b d, writeSetIAT d, writeSetJTI d, writeSetNBF d,
           writeAudiencePattern b d, writeSubjectPattern b d, writeMaxAudiences d,
           writeAllowedClaims b d] = Inl out"
    using assms by (simp only: overlayFields_def)
next
  fix f c r
  assume "f \<in> set [writeSignatureAlgorithm b d, writeRSAKeyBits b d, writeRotationDuration b d,
           writeTokenTTL b d, writeSetIAT d, writeSetJTI d, writeSetNBF d,
           writeAudiencePattern b d, writeSubjectPattern b d, writeMaxAudiences d,
           writeAllowedClaims b d]"
    and "f c = Inl r"
  then show "\<not> succeeded r"
    using block_fails by auto
qed

text \<open>No block but the one of \<open>jwt_ttl\<close> assigns \<open>TokenTTL\<close>.\<close>

lemma writeSignatureAlgorithm_TokenTTL:
  "writeSignatureAlgorithm b d c = Inr c' \<Longrightarrow> TokenTTL c' = TokenTTL c"
  by (auto simp add: writeSignatureAlgorithm_def split: option.splits field_value.splits if_splits)

lemma writeRSAKeyBits_TokenTTL:
  "writeRSAKeyBits b d c = Inr c' \<Longrightarrow> TokenTTL c' = TokenTTL c"
  by (auto simp add: writeRSAKeyBits_def split: option.splits field_value.splits if_splits)

lemma writeRotationDuration_TokenTTL:
  "writeRotationDuration b d c = Inr c' \<Longrightarrow> TokenTTL c' = TokenTTL c"
  by (auto simp add: writeRotationDuration_def split: option.splits field_value.splits sum.splits)

lemma writeTokenTTL_absent:
  "d keyTokenTTL = None \<Longrightarrow> writeTokenTTL b d c = Inr c"
  by (simp add: writeTokenTTL_def)

lemma writeSetIAT_TokenTTL:
  "writeSetIAT d c = Inr c' \<Longrightarrow> TokenTTL c' = TokenTTL c"
  by (auto simp add: writeSetIAT_def split: option.splits field_value.splits)

lemma writeSetJTI_TokenTTL:
  "writeSetJTI d c = Inr c' \<Longrightarrow> TokenTTL c' = TokenTTL c"
  by (auto simp add: writeSetJTI_def split: option.splits field_value.splits)

lemma writeSetNBF_TokenTTL:
  "writeSetNBF d c = Inr c' \<Longrightarrow> TokenTTL c' = TokenTTL c"
  by (auto simp add: writeSetNBF_def split: option.splits field_value.splits)

lemma writeAudiencePattern_TokenTTL:
  "writeAudiencePattern b d c = Inr c' \<Longrightarrow> TokenTTL c' = TokenTTL c"
  by (auto simp add: writeAudiencePattern_def Let_def split: option.splits field_value.splits)

lemma writeSubjectPattern_TokenTTL:
  "writeSubjectPattern b d c = Inr c' \<Longrightarrow> TokenTTL c' = TokenTTL c"
  by (auto simp add: writeSubjectPattern_def Let_def split: option.splits field_value.splits)

lemma writeMaxAudiences_TokenTTL:
  "writeMaxAudiences d c = Inr c' \<Longrightarrow> TokenTTL c' = TokenTTL c"
  by (auto simp add: writeMaxAudiences_def split: option.splits field_value.splits)

lemma writeAllowedClaims_TokenTTL:
  "writeAllowedClaims b d c = Inr c' \<Longrightarrow> TokenTTL c' = TokenTTL c"
  by (auto simp add: writeAllowedClaims_def split: option.splits field_value.splits)

lemmas block_TokenTTL =
  writeSignatureAlgorithm_TokenTTL writeRSAKeyBits_TokenTTL writeRotationDuration_TokenTTL
  writeSetIAT_TokenTTL writeSetJTI_TokenTTL writeSetNBF_TokenTTL
  writeAudiencePattern_TokenTTL writeSubjectPattern_TokenTTL writeMaxAudiences_TokenTTL
  writeAllowedClaims_TokenTTL

lemma overlayFields_keeps_TokenTTL:
  assumes "d keyTokenTTL = None" and "overlayFields b d config = Inr config'"
  shows "TokenTTL config' = TokenTTL config"
proof (rule foldl_andThen_keeps [where Q = TokenTTL])
  show "foldl andThen (Inr config)
          [writeSignatureAlgorithm b d, writeRSAKeyBits b d, writeRotationDuration b d,
           writeTokenTTL b d, writeSetIAT d, writeSetJTI d, writeSetNBF d,
           writeAudiencePattern b d, writeSubjectPattern b d, writeMaxAudiences d,
           writeAllowedClaims b d] = Inr config'"
    using assms(2) by (simp only: overlayFields_def)
next
  fix f c c'
  assume "f \<in> set [writeSignatureAlgorithm b d, writeRSAKeyBits b d, writeRotationDuration b d,
           writeTokenTTL b d, writeSetIAT d, writeSetJTI d, writeSetNBF d,
           writeAudiencePattern b d, writeSubjectPattern b d, writeMaxAudiences d,
           writeAllowedClaims b d]"
    and "f c = Inr c'"
  then show "TokenTTL c' = TokenTTL c"
    using block_TokenTTL writeTokenTTL_absent [of d b c] assms(1) by auto
qed

text \<open>The two checks the specification names.\<close>

lemma unknown_algorithm_blocks:
  assumes "d keySignatureAlgorithm = Some (VString alg)"
    and "\<not> stringInSlice alg (AllowedSignatureAlgorithmNames b)"
  shows "overlayFields b d config =
           Inl (invalidRequest (''unknown/unsupported signature algorithm, must be one of '' @
                  sprintStrings (AllowedSignatureAlgorithmNames b)))"
  using assms by (simp add: overlayFields_def writeSignatureAlgorithm_def)



subsection \<open>The handler\<close>

lemma pathConfigWrite_blocked:
  "getConfig b stg = Inr current \<Longrightarrow> overlayFields b d current = Inl out \<Longrightarrow>
   pathConfigWrite b stg d = (out, stg)"
  by (simp add: pathConfigWrite_def)

lemma pathConfigWrite_over_ceiling:
  "getConfig b stg = Inr current \<Longrightarrow> overlayFields b d current = Inr candidate \<Longrightarrow>
   MaxLeaseTTL b < TokenTTL candidate \<Longrightarrow>
   pathConfigWrite b stg d =
     (invalidRequest (quoted keyTokenTTL @ '' is greater that the max lease ttl''), stg)"
  by (simp add: pathConfigWrite_def)

lemma pathConfigWrite_saves:
  "getConfig b stg = Inr current \<Longrightarrow> overlayFields b d current = Inr candidate \<Longrightarrow>
   TokenTTL candidate \<le> MaxLeaseTTL b \<Longrightarrow> putFault stg = None \<Longrightarrow>
   pathConfigWrite b stg d = (configResponse b candidate, stg\<lparr>entry := Some candidate\<rparr>)"
  by (simp add: pathConfigWrite_def saveConfig_def)

lemma ttl_message:
  "invalidRequest (quoted keyTokenTTL @ '' is greater that the max lease ttl'') =
     Return (Some (ErrorResponse
               (CHR 0x27 # ''jwt_ttl'' @ CHR 0x27 # '' is greater that the max lease ttl'')))
       (Some ErrInvalidRequest)"
  by (simp add: invalidRequest_def quoted_def)


subsection \<open>The examples, evaluated\<close>

lemmas block_defs =
  writeSignatureAlgorithm_def writeRSAKeyBits_def writeRotationDuration_def writeTokenTTL_def
  writeSetIAT_def writeSetJTI_def writeSetNBF_def writeAudiencePattern_def
  writeSubjectPattern_def writeMaxAudiences_def writeAllowedClaims_def

lemma exampleStorage_current:
  "getConfig exampleBackend exampleStorage = Inr exampleConfig"
  "getConfig loweredBackend exampleStorage = Inr exampleConfig"
  by (simp_all add: getConfig_def exampleStorage_def)

lemma exampleBackend_lists:
  "\<not> stringInSlice ''HS256'' (AllowedSignatureAlgorithmNames exampleBackend)"
  "stringInSlice ''exp'' (ReservedClaims exampleBackend)"
  "sprintStrings (AllowedSignatureAlgorithmNames exampleBackend) =
     ''[ES256 ES384 ES512 RS256 RS384 RS512]''"
  by (simp_all add: exampleBackend_def sprintStrings_def)

lemma unknownAlgorithmUpdate_write:
  "pathConfigWrite exampleBackend exampleStorage unknownAlgorithmUpdate =
     (Return (Some (ErrorResponse
        ''unknown/unsupported signature algorithm, must be one of [ES256 ES384 ES512 RS256 RS384 RS512]''))
        (Some ErrInvalidRequest),
      exampleStorage)"
proof -
  have "unknownAlgorithmUpdate keySignatureAlgorithm = Some (VString ''HS256'')"
    by (simp add: unknownAlgorithmUpdate_def)
  then have "overlayFields exampleBackend unknownAlgorithmUpdate exampleConfig =
      Inl (invalidRequest (''unknown/unsupported signature algorithm, must be one of '' @
             sprintStrings (AllowedSignatureAlgorithmNames exampleBackend)))"
    using exampleBackend_lists(1) by (rule unknown_algorithm_blocks)
  then show ?thesis
    by (simp add: pathConfigWrite_blocked [OF exampleStorage_current(1)] exampleBackend_lists(3)
          invalidRequest_def)
qed

lemma badRotationUpdate_write:
  "pathConfigWrite exampleBackend exampleStorage badRotationUpdate =
     (Return None (Some (ParseDurationError (''time: invalid duration '' @ [CHR 0x22] @ ''soon'' @ [CHR 0x22]))),
      exampleStorage)"
proof -
  have "overlayFields exampleBackend badRotationUpdate exampleConfig =
      Inl (Return None (Some (ParseDurationError
             (''time: invalid duration '' @ [CHR 0x22] @ ''soon'' @ [CHR 0x22]))))"
    by (simp add: overlayFields_def block_defs badRotationUpdate_def exampleBackend_def
          exampleParseDuration_def)
  then show ?thesis
    by (simp add: pathConfigWrite_blocked [OF exampleStorage_current(1)])
qed

lemma badTTLUpdate_write:
  "pathConfigWrite exampleBackend exampleStorage badTTLUpdate =
     (Return None (Some (ParseDurationError (''time: invalid duration '' @ [CHR 0x22] @ ''soon'' @ [CHR 0x22]))),
      exampleStorage)"
proof -
  have "overlayFields exampleBackend badTTLUpdate exampleConfig =
      Inl (Return None (Some (ParseDurationError
             (''time: invalid duration '' @ [CHR 0x22] @ ''soon'' @ [CHR 0x22]))))"
    by (simp add: overlayFields_def block_defs badTTLUpdate_def exampleBackend_def
          exampleParseDuration_def)
  then show ?thesis
    by (simp add: pathConfigWrite_blocked [OF exampleStorage_current(1)])
qed

lemma longTTLUpdate_overlay:
  "overlayFields exampleBackend longTTLUpdate exampleConfig =
     Inr (exampleConfig\<lparr>TokenTTL := 172800000000000, SetJTI := False\<rparr>)"
  by (simp add: overlayFields_def block_defs longTTLUpdate_def exampleBackend_def
        exampleParseDuration_def)

lemma unrelatedUpdate_overlay:
  "overlayFields loweredBackend unrelatedUpdate exampleConfig =
     Inr (exampleConfig\<lparr>SetNBF := False\<rparr>)"
  by (simp add: overlayFields_def block_defs unrelatedUpdate_def)

subsection \<open>All or nothing\<close>



subsection \<open>The lease ceiling\<close>

text \<open>
  C6. If the candidate that the field blocks leave has a token lifetime above
  the host's lease ceiling, the write returns the error response whose text
  names \<open>jwt_ttl\<close>, with \<open>logical.ErrInvalidRequest\<close>, and the storage is
  unchanged.
\<close>

theorem pathConfigWrite_ttl_above_ceiling:
  assumes "getConfig b stg = Inr current"
    and "overlayFields b d current = Inr candidate"
    and "MaxLeaseTTL b < TokenTTL candidate"
  shows "pathConfigWrite b stg d =
           (Return (Some (ErrorResponse
                      (CHR 0x27 # ''jwt_ttl'' @ CHR 0x27 # '' is greater that the max lease ttl'')))
              (Some ErrInvalidRequest),
            stg)"
  using pathConfigWrite_over_ceiling [OF assms] by (simp only: ttl_message)

theorem pathConfigWrite_ttl_above_ceiling_witness:
  "getConfig exampleBackend exampleStorage = Inr exampleConfig \<and>
   overlayFields exampleBackend longTTLUpdate exampleConfig =
     Inr (exampleConfig\<lparr>TokenTTL := 172800000000000, SetJTI := False\<rparr>) \<and>
   MaxLeaseTTL exampleBackend < 172800000000000 \<and>
   pathConfigWrite exampleBackend exampleStorage longTTLUpdate =
     (Return (Some (ErrorResponse
                (CHR 0x27 # ''jwt_ttl'' @ CHR 0x27 # '' is greater that the max lease ttl'')))
        (Some ErrInvalidRequest),
      exampleStorage)"
proof -
  have ceiling: "MaxLeaseTTL exampleBackend < 172800000000000"
    by (simp add: exampleBackend_def)
  then have "MaxLeaseTTL exampleBackend
               < TokenTTL (exampleConfig\<lparr>TokenTTL := 172800000000000, SetJTI := False\<rparr>)"
    by simp
  from pathConfigWrite_ttl_above_ceiling [OF exampleStorage_current(1) longTTLUpdate_overlay this]
  show ?thesis
    using ceiling exampleStorage_current(1) longTTLUpdate_overlay by simp
qed

text \<open>
  C10. The comparison with the lease ceiling does not depend on the request
  carrying \<open>jwt_ttl\<close>: when it does not and the stored token lifetime is above
  the ceiling, the write does not succeed and the storage is unchanged; the
  return is the early return of a field block if there is one, and otherwise
  the error response that names \<open>jwt_ttl\<close>.
\<close>

theorem pathConfigWrite_checks_stored_ttl:
  assumes "getConfig b stg = Inr current"
    and "d keyTokenTTL = None"
    and "MaxLeaseTTL b < TokenTTL current"
  shows "\<not> succeeded (fst (pathConfigWrite b stg d)) \<and>
         snd (pathConfigWrite b stg d) = stg \<and>
         (case overlayFields b d current of
            Inl out \<Rightarrow> pathConfigWrite b stg d = (out, stg)
          | Inr candidate \<Rightarrow>
              pathConfigWrite b stg d =
                (Return (Some (ErrorResponse
                           (CHR 0x27 # ''jwt_ttl'' @ CHR 0x27 # '' is greater that the max lease ttl'')))
                   (Some ErrInvalidRequest),
                 stg))"
proof (cases "overlayFields b d current")
  case (Inl out)
  then show ?thesis
    using overlayFields_fails [OF Inl] by (simp add: pathConfigWrite_blocked [OF assms(1)])
next
  case (Inr candidate)
  have "TokenTTL candidate = TokenTTL current"
    using assms(2) Inr by (rule overlayFields_keeps_TokenTTL)
  with assms(3) have "MaxLeaseTTL b < TokenTTL candidate" by simp
  then show ?thesis
    using Inr by (simp add: pathConfigWrite_over_ceiling [OF assms(1) Inr] ttl_message)
qed

theorem pathConfigWrite_checks_stored_ttl_witness:
  "getConfig loweredBackend exampleStorage = Inr exampleConfig \<and>
   unrelatedUpdate keyTokenTTL = None \<and>
   MaxLeaseTTL loweredBackend < TokenTTL exampleConfig \<and>
   pathConfigWrite loweredBackend exampleStorage unrelatedUpdate =
     (Return (Some (ErrorResponse
                (CHR 0x27 # ''jwt_ttl'' @ CHR 0x27 # '' is greater that the max lease ttl'')))
        (Some ErrInvalidRequest),
      exampleStorage)"
proof -
  have absent: "unrelatedUpdate keyTokenTTL = None"
    by (simp add: unrelatedUpdate_def)
  have ceiling: "MaxLeaseTTL loweredBackend < TokenTTL exampleConfig"
    by (simp add: loweredBackend_def exampleConfig_def)
  from pathConfigWrite_checks_stored_ttl
         [where d = unrelatedUpdate, OF exampleStorage_current(2) absent ceiling]
  show ?thesis
    using absent ceiling exampleStorage_current(2) by (simp add: unrelatedUpdate_overlay)
qed

subsection \<open>Durations that do not parse\<close>

text \<open>
  C8. In the specification a \<open>key_ttl\<close> or \<open>jwt_ttl\<close> that does not parse is a
  rejected request like the failure of any other field check. In the code the
  blocks of \<open>sig_alg\<close>, \<open>rsa_key_bits\<close> and \<open>allowed_claims\<close> and the comparison
  with the ceiling return an error response with \<open>logical.ErrInvalidRequest\<close>;
  the two duration blocks return no response and the error of
  \<open>time.ParseDuration\<close> itself, which is how the handler returns a failure of
  the storage. The storage is unchanged in both cases.
\<close>

theorem pathConfigWrite_unparsable_duration:
  "pathConfigWrite exampleBackend exampleStorage badRotationUpdate =
     (Return None (Some (ParseDurationError (''time: invalid duration '' @ [CHR 0x22] @ ''soon'' @ [CHR 0x22]))),
      exampleStorage) \<and>
   pathConfigWrite exampleBackend exampleStorage badTTLUpdate =
     (Return None (Some (ParseDurationError (''time: invalid duration '' @ [CHR 0x22] @ ''soon'' @ [CHR 0x22]))),
      exampleStorage) \<and>
   pathConfigWrite exampleBackend exampleStorage unknownAlgorithmUpdate =
     (Return (Some (ErrorResponse
        ''unknown/unsupported signature algorithm, must be one of [ES256 ES384 ES512 RS256 RS384 RS512]''))
        (Some ErrInvalidRequest),
      exampleStorage)"
  by (simp only: badRotationUpdate_write badTTLUpdate_write unknownAlgorithmUpdate_write simp_thms)


subsection \<open>A write followed by a read\<close>

lemma writeThenRead_saved:
  assumes "getFault stg = None" and "putFault stg = None"
    and "getConfig b stg = Inr current"
    and "overlayFields b d current = Inr candidate"
    and "TokenTTL candidate \<le> MaxLeaseTTL b"
  shows "pathConfigWrite b stg d = (configResponse b candidate, stg\<lparr>entry := Some candidate\<rparr>)"
    and "writeThenRead b stg d = configResponse b candidate"
proof -
  show w: "pathConfigWrite b stg d = (configResponse b candidate, stg\<lparr>entry := Some candidate\<rparr>)"
    using assms by (simp add: pathConfigWrite_saves)
  show "writeThenRead b stg d = configResponse b candidate"
    using assms(1) by (simp add: writeThenRead_def w pathConfigRead_def getConfig_def)
qed

lemma getConfig_loads:
  "getFault stg = None \<Longrightarrow> \<exists>current. getConfig b stg = Inr current"
  by (simp add: getConfig_def split: option.splits)

text \<open>
  A request that carries every field the handler reads, each with a value
  that passes its check, overwrites every field of the configuration.
\<close>

lemma overlayFields_every_field:
  assumes "d keySignatureAlgorithm = Some (VString alg)"
    and "d keyRSAKeyBits = Some (VInt bits)"
    and "d keyRotationDuration = Some (VString rotation)"
    and "d keyTokenTTL = Some (VString ttl)"
    and "d keySetIAT = Some (VBool iat)"
    and "d keySetJTI = Some (VBool jti)"
    and "d keySetNBF = Some (VBool nbf)"
    and "d keyAudiencePattern = Some (VString audiences)"
    and "d keySubjectPattern = Some (VString subjects)"
    and "d keyMaxAllowedAudiences = Some (VInt maxAudiences)"
    and "d keyAllowedClaims = Some (VStringSlice claims)"
    and "stringInSlice alg (AllowedSignatureAlgorithmNames b)"
    and "intInSlice bits (AllowedRSAKeyBits b)"
    and "time_ParseDuration b rotation = Inr rotationPeriod"
    and "time_ParseDuration b ttl = Inr tokenTTL"
    and "regexp_Compile b audiences = None"
    and "regexp_Compile b subjects = None"
    and "firstReserved (ReservedClaims b) claims = None"
  shows "overlayFields b d current =
           Inr \<lparr>SignatureAlgorithm = alg, RSAKeyBits = bits,
                KeyRotationPeriod = rotationPeriod, TokenTTL = tokenTTL,
                SetIAT = iat, SetJTI = jti, SetNBF = nbf,
                AudiencePattern = audiences, SubjectPattern = subjects,
                MaxAudiences = maxAudiences, AllowedClaims = claims\<rparr>"
  using assms by (cases current) (simp add: overlayFields_def block_defs Let_def)

lemma everyField_fields:
  "everyField keySignatureAlgorithm = Some (VString ''RS256'')"
  "everyField keyRSAKeyBits = Some (VInt 4096)"
  "everyField keyRotationDuration = Some (VString ''60m'')"
  "everyField keyTokenTTL = Some (VString ''5m'')"
  "everyField keySetIAT = Some (VBool False)"
  "everyField keySetJTI = Some (VBool False)"
  "everyField keySetNBF = Some (VBool False)"
  "everyField keyAudiencePattern = Some (VString ''api-.*'')"
  "everyField keySubjectPattern = Some (VString ''svc-.*'')"
  "everyField keyMaxAllowedAudiences = Some (VInt (- 1))"
  "everyField keyAllowedClaims = Some (VStringSlice [''groups'', ''email''])"
  by (simp_all add: everyField_def)

lemma everyField_legal:
  "stringInSlice ''RS256'' (AllowedSignatureAlgorithmNames exampleBackend)"
  "intInSlice 4096 (AllowedRSAKeyBits exampleBackend)"
  "time_ParseDuration exampleBackend ''60m'' = Inr 3600000000000"
  "time_ParseDuration exampleBackend ''5m'' = Inr 300000000000"
  "regexp_Compile exampleBackend ''api-.*'' = None"
  "regexp_Compile exampleBackend ''svc-.*'' = None"
  "firstReserved (ReservedClaims exampleBackend) [''groups'', ''email''] = None"
  by (simp_all add: exampleBackend_def exampleParseDuration_def)

lemma exampleBackend_renders:
  "MaxLeaseTTL exampleBackend = 86400000000000"
  "Duration_String exampleBackend 3600000000000 = ''1h0m0s''"
  "Duration_String exampleBackend 300000000000 = ''5m0s''"
  by (simp_all add: exampleBackend_def exampleDurationString_def)

lemma exampleStorage_faults:
  "getFault exampleStorage = None" "putFault exampleStorage = None"
  by (simp_all add: exampleStorage_def)

lemma everyField_overlay:
  "overlayFields exampleBackend everyField exampleConfig =
     Inr \<lparr>SignatureAlgorithm = ''RS256'', RSAKeyBits = 4096,
          KeyRotationPeriod = 3600000000000, TokenTTL = 300000000000,
          SetIAT = False, SetJTI = False, SetNBF = False,
          AudiencePattern = ''api-.*'', SubjectPattern = ''svc-.*'',
          MaxAudiences = - 1, AllowedClaims = [''groups'', ''email'']\<rparr>"
  by (rule overlayFields_every_field [OF everyField_fields everyField_legal])

text \<open>
  C7, as the specification states it: a write of every field with legal values
  followed by a read returns exactly the values written. The read renders the
  two durations with \<open>Duration.String\<close>, which is not the string that was
  written unless that string was already in this form: the write below
  succeeds, and \<open>60m\<close> is read back as \<open>1h0m0s\<close> and \<open>5m\<close> as \<open>5m0s\<close>.
\<close>

theorem writeThenRead_changes_durations:
  "succeeded (fst (pathConfigWrite exampleBackend exampleStorage everyField)) \<and>
   everyField keyRotationDuration = Some (VString ''60m'') \<and>
   responseData (writeThenRead exampleBackend exampleStorage everyField) keyRotationDuration =
     Some (VString ''1h0m0s'') \<and>
   everyField keyTokenTTL = Some (VString ''5m'') \<and>
   responseData (writeThenRead exampleBackend exampleStorage everyField) keyTokenTTL =
     Some (VString ''5m0s'')"
proof -
  let ?candidate =
    "\<lparr>SignatureAlgorithm = ''RS256'', RSAKeyBits = 4096,
      KeyRotationPeriod = 3600000000000, TokenTTL = 300000000000,
      SetIAT = False, SetJTI = False, SetNBF = False,
      AudiencePattern = ''api-.*'', SubjectPattern = ''svc-.*'',
      MaxAudiences = - 1, AllowedClaims = [''groups'', ''email'']\<rparr>"
  have below: "TokenTTL ?candidate \<le> MaxLeaseTTL exampleBackend"
    by (simp add: exampleBackend_renders)
  note saved = writeThenRead_saved
    [OF exampleStorage_faults exampleStorage_current(1) everyField_overlay below]
  show ?thesis
    by (simp add: saved everyField_fields configResponse_def responseData_def
          exampleBackend_renders)
qed

text \<open>
  C7, amended. On a storage whose calls succeed, a write that carries every
  field the handler reads, each with a legal value, followed by a read returns
  the algorithm, the RSA key bits, the three booleans, the two patterns, the
  maximum number of audiences and the allowed claims exactly as written, and
  each of the two durations as \<open>Duration.String\<close> renders the duration that the
  written string parses to. The successful write returns the same response.
\<close>

theorem writeThenRead_every_field:
  assumes "getFault stg = None" and "putFault stg = None"
    and "d keySignatureAlgorithm = Some (VString alg)"
    and "d keyRSAKeyBits = Some (VInt bits)"
    and "d keyRotationDuration = Some (VString rotation)"
    and "d keyTokenTTL = Some (VString ttl)"
    and "d keySetIAT = Some (VBool iat)"
    and "d keySetJTI = Some (VBool jti)"
    and "d keySetNBF = Some (VBool nbf)"
    and "d keyAudiencePattern = Some (VString audiences)"
    and "d keySubjectPattern = Some (VString subjects)"
    and "d keyMaxAllowedAudiences = Some (VInt maxAudiences)"
    and "d keyAllowedClaims = Some (VStringSlice claims)"
    and "stringInSlice alg (AllowedSignatureAlgorithmNames b)"
    and "intInSlice bits (AllowedRSAKeyBits b)"
    and "time_ParseDuration b rotation = Inr rotationPeriod"
    and "time_ParseDuration b ttl = Inr tokenTTL"
    and "regexp_Compile b audiences = None"
    and "regexp_Compile b subjects = None"
    and "firstReserved (ReservedClaims b) claims = None"
    and "tokenTTL \<le> MaxLeaseTTL b"
  shows "writeThenRead b stg d =
           Return (Some \<lparr>Data =
             [keySignatureAlgorithm \<mapsto> VString alg,
              keyRSAKeyBits \<mapsto> VInt bits,
              keyRotationDuration \<mapsto> VString (Duration_String b rotationPeriod),
              keyTokenTTL \<mapsto> VString (Duration_String b tokenTTL),
              keySetIAT \<mapsto> VBool iat,
              keySetJTI \<mapsto> VBool jti,
              keySetNBF \<mapsto> VBool nbf,
              keyAudiencePattern \<mapsto> VString audiences,
              keySubjectPattern \<mapsto> VString subjects,
              keyMaxAllowedAudiences \<mapsto> VInt maxAudiences,
              keyAllowedClaims \<mapsto> VStringSlice claims]\<rparr>) None \<and>
         fst (pathConfigWrite b stg d) = writeThenRead b stg d"
proof -
  let ?candidate =
    "\<lparr>SignatureAlgorithm = alg, RSAKeyBits = bits,
      KeyRotationPeriod = rotationPeriod, TokenTTL = tokenTTL,
      SetIAT = iat, SetJTI = jti, SetNBF = nbf,
      AudiencePattern = audiences, SubjectPattern = subjects,
      MaxAudiences = maxAudiences, AllowedClaims = claims\<rparr>"
  obtain current where current: "getConfig b stg = Inr current"
    using getConfig_loads [OF assms(1)] by blast
  have overlay: "overlayFields b d current = Inr ?candidate"
    by (rule overlayFields_every_field [OF assms(3-20)])
  have below: "TokenTTL ?candidate \<le> MaxLeaseTTL b"
    using assms(21) by simp
  note saved = writeThenRead_saved [OF assms(1, 2) current overlay below]
  show ?thesis
    by (simp add: saved configResponse_def)
qed

theorem writeThenRead_every_field_witness:
  "writeThenRead exampleBackend exampleStorage everyField =
     Return (Some \<lparr>Data =
       [keySignatureAlgorithm \<mapsto> VString ''RS256'',
        keyRSAKeyBits \<mapsto> VInt 4096,
        keyRotationDuration \<mapsto> VString ''1h0m0s'',
        keyTokenTTL \<mapsto> VString ''5m0s'',
        keySetIAT \<mapsto> VBool False,
        keySetJTI \<mapsto> VBool False,
        keySetNBF \<mapsto> VBool False,
        keyAudiencePattern \<mapsto> VString ''api-.*'',
        keySubjectPattern \<mapsto> VString ''svc-.*'',
        keyMaxAllowedAudiences \<mapsto> VInt (- 1),
        keyAllowedClaims \<mapsto> VStringSlice [''groups'', ''email'']]\<rparr>) None \<and>
   fst (pathConfigWrite exampleBackend exampleStorage everyField) =
     writeThenRead exampleBackend exampleStorage everyField \<and>
   everyField ''issuer'' = Some (VString ''https://vault.example'')"
proof -
  have below: "(300000000000 :: int) \<le> MaxLeaseTTL exampleBackend"
    by (simp add: exampleBackend_renders)
  from writeThenRead_every_field
         [OF exampleStorage_faults everyField_fields everyField_legal below]
  show ?thesis
    by (simp add: exampleBackend_renders) (simp add: everyField_def)
qed


end
